theory Spec2Isabelle
  imports Main "HOL-Library.Word"
begin

section \<open>The Cortex exporter's configuration (config.go)\<close>

subsection \<open>Errors\<close>

text \<open>
  The package's error values. \<open>ErrTwoPasswords\<close> and \<open>ErrTwoBearerTokens\<close> are
  declared in config.go; \<open>ErrNoBasicAuthUsername\<close>, \<open>ErrNoBasicAuthPassword\<close> and
  \<open>ErrFailedToReadFile\<close> are the ones auth\_test.go expects from \<open>addHeaders\<close>.
  \<open>UrlError\<close> is the error \<open>url.Parse\<close> returns (a \<open>*url.Error\<close>, carrying its
  message): it is never equal to one of the package's own error values.
\<close>

datatype error =
    ErrTwoPasswords
  | ErrTwoBearerTokens
  | ErrNoBasicAuthUsername
  | ErrNoBasicAuthPassword
  | ErrFailedToReadFile
  | UrlError string

subsection \<open>Durations\<close>

text \<open>
  \<open>time.Duration\<close> is an \<open>int64\<close> count of nanoseconds; \<open>time.Second\<close> is
  \<open>1000000000\<close>.
\<close>

type_synonym Duration = "64 word"

definition Second :: Duration where
  "Second = 1000000000"

subsection \<open>Go maps of strings\<close>

text \<open>
  A \<open>map[string]string\<close> is \<open>None\<close> when it is the nil map and \<open>Some m\<close>
  otherwise. Reading a key (\<open>m[k]\<close>) gives the zero value, the empty string, when
  the map is nil or the key is absent.
\<close>

type_synonym StringMap = "(string \<rightharpoonup> string) option"

definition index :: "StringMap \<Rightarrow> string \<Rightarrow> string" where
  "index m k =
     (case m of
        None \<Rightarrow> ''''
      | Some f \<Rightarrow> (case f k of None \<Rightarrow> '''' | Some v \<Rightarrow> v))"

subsection \<open>The HTTP client Validate builds\<close>

text \<open>
  The fields of \<open>net.Dialer\<close> and \<open>http.Transport\<close> that Validate sets. The type
  \<open>'u\<close> is \<open>*url.URL\<close>. A transport's \<open>Proxy\<close> is a function from the request
  to the proxy's URL; \<open>http.ProxyURL u\<close> is the one that answers \<open>u\<close> for every
  request.
\<close>

record Dialer =
  Timeout :: Duration
  KeepAlive :: Duration
  DualStack :: bool

datatype 'u ProxyFunc = http_ProxyURL 'u

record 'u Transport =
  Proxy :: "'u ProxyFunc"
  DialContext :: Dialer
  ForceAttemptHTTP2 :: bool
  MaxIdleConns :: int
  IdleConnTimeout :: Duration
  TLSHandshakeTimeout :: Duration
  ExpectContinueTimeout :: Duration

text \<open>
  A \<open>*http.Client\<close> is \<open>http.DefaultClient\<close> or a client allocated with a
  transport of its own (\<open>&http.Client{Transport: transport}\<close>); the nil pointer is
  \<open>None\<close> in the field below.
\<close>

datatype 'u http_Client = http_DefaultClient | http_Client "'u Transport"

subsection \<open>Config\<close>

record 'u Config =
  Endpoint :: string
  RemoteTimeout :: Duration
  Name :: string
  BasicAuth :: StringMap
  BearerToken :: string
  BearerTokenFile :: string
  TLSConfig :: StringMap
  ProxyURL :: string
  PushInterval :: Duration
  Headers :: StringMap
  Client :: "'u http_Client option"

text \<open>The zero value \<open>Config{}\<close>.\<close>

definition zeroConfig :: "'u Config" where
  "zeroConfig =
     \<lparr>Endpoint = '''', RemoteTimeout = 0, Name = '''', BasicAuth = None,
      BearerToken = '''', BearerTokenFile = '''', TLSConfig = None, ProxyURL = '''',
      PushInterval = 0, Headers = None, Client = None\<rparr>"

subsection \<open>Validate\<close>

text \<open>The two conditions Validate checks first (config.go, lines 39 and 42).\<close>

definition twoBearerTokens :: "'u Config \<Rightarrow> bool" where
  "twoBearerTokens c = (BearerToken c \<noteq> '''' \<and> BearerTokenFile c \<noteq> '''')"

definition twoPasswords :: "'u Config \<Rightarrow> bool" where
  "twoPasswords c =
     (index (BasicAuth c) ''password'' \<noteq> '''' \<and> index (BasicAuth c) ''password_file'' \<noteq> '''')"

text \<open>The three defaults (lines 47 to 56), each an assignment under its test.\<close>

definition defaultEndpoint :: "'u Config \<Rightarrow> 'u Config" where
  "defaultEndpoint c = (if Endpoint c = '''' then c\<lparr>Endpoint := ''/api/prom/push''\<rparr> else c)"

definition defaultRemoteTimeout :: "'u Config \<Rightarrow> 'u Config" where
  "defaultRemoteTimeout c =
     (if RemoteTimeout c = 0 then c\<lparr>RemoteTimeout := 30 * Second\<rparr> else c)"

definition defaultPushInterval :: "'u Config \<Rightarrow> 'u Config" where
  "defaultPushInterval c =
     (if PushInterval c = 0 then c\<lparr>PushInterval := 10 * Second\<rparr> else c)"

text \<open>The transport of lines 64 to 76, for the parsed proxy URL.\<close>

definition proxyTransport :: "'u \<Rightarrow> 'u Transport" where
  "proxyTransport parsedProxyURL =
     \<lparr>Proxy = http_ProxyURL parsedProxyURL,
      DialContext = \<lparr>Timeout = 30 * Second, KeepAlive = 30 * Second, DualStack = True\<rparr>,
      ForceAttemptHTTP2 = True,
      MaxIdleConns = 100,
      IdleConnTimeout = 90 * Second,
      TLSHandshakeTimeout = 10 * Second,
      ExpectContinueTimeout = 1 * Second\<rparr>"

text \<open>The fallback of lines 81 to 83.\<close>

definition defaultClient :: "'u Config \<Rightarrow> 'u Config" where
  "defaultClient c = (if Client c = None then c\<lparr>Client := Some http_DefaultClient\<rparr> else c)"

text \<open>
  \<open>Validate\<close> has a pointer receiver: it changes the Config in place and returns an
  error. The model returns the error (\<open>None\<close> is nil) together with the Config as the
  call leaves it, also when it fails. \<open>url_Parse\<close> is the standard library's
  \<open>url.Parse\<close>, a parameter: \<open>Inl msg\<close> when it fails, \<open>Inr u\<close> when it parses.
\<close>

definition Validate :: "(string \<Rightarrow> string + 'u) \<Rightarrow> 'u Config \<Rightarrow> error option \<times> 'u Config" where
  "Validate url_Parse c =
     (if twoBearerTokens c then (Some ErrTwoBearerTokens, c)
      else if twoPasswords c then (Some ErrTwoPasswords, c)
      else
        let c = defaultPushInterval (defaultRemoteTimeout (defaultEndpoint c)) in
        if Client c = None \<and> ProxyURL c \<noteq> '''' then
          (case url_Parse (ProxyURL c) of
             Inl err \<Rightarrow> (Some (UrlError err), c)
           | Inr parsedProxyURL \<Rightarrow>
               (None, defaultClient (c\<lparr>Client := Some (http_Client (proxyTransport parsedProxyURL))\<rparr>)))
        else (None, defaultClient c))"

text \<open>
  Two stand-ins for \<open>url.Parse\<close> on concrete inputs, with the URL as its text: one
  that parses every string, one that rejects every string.
\<close>

definition parseAll :: "string \<Rightarrow> string + string" where
  "parseAll s = Inr s"

definition parseNone :: "string \<Rightarrow> string + string" where
  "parseNone s = Inl ''parse error''"

text \<open>Configurations used as concrete inputs below.\<close>

definition cfgTwoTokens :: "string Config" where
  "cfgTwoTokens = zeroConfig\<lparr>BearerToken := ''token'', BearerTokenFile := ''tokenFile''\<rparr>"

definition cfgTwoPasswords :: "string Config" where
  "cfgTwoPasswords =
     zeroConfig\<lparr>BasicAuth :=
       Some [''username'' \<mapsto> ''user'', ''password'' \<mapsto> ''pass'', ''password_file'' \<mapsto> ''passFile'']\<rparr>"

definition cfgTwoOfEach :: "string Config" where
  "cfgTwoOfEach = cfgTwoPasswords\<lparr>BearerToken := ''token'', BearerTokenFile := ''tokenFile''\<rparr>"

definition cfgProxy :: "string Config" where
  "cfgProxy = zeroConfig\<lparr>ProxyURL := ''http://proxy.example:3128''\<rparr>"

definition cfgTwoTokensProxy :: "string Config" where
  "cfgTwoTokensProxy = cfgTwoTokens\<lparr>ProxyURL := ''http://proxy.example:3128''\<rparr>"

definition cfgPushInterval :: "string Config" where
  "cfgPushInterval = zeroConfig\<lparr>PushInterval := 7 * Second\<rparr>"

section \<open>The authenticator (addHeaders)\<close>

subsection \<open>Requests and their headers\<close>

text \<open>
  \<open>http.Header\<close> is a \<open>map[string][]string\<close>. \<open>Header.Set\<close> replaces the values
  of a key by the one given; \<open>Header.Get\<close> answers the first value of a key, or the
  empty string.
\<close>

type_synonym http_Header = "string \<rightharpoonup> string list"

record Request =
  Method :: string
  URL :: string
  Header :: http_Header

definition Header_Set :: "string \<Rightarrow> string \<Rightarrow> Request \<Rightarrow> Request" where
  "Header_Set key v req = req\<lparr>Header := (Header req)(key \<mapsto> [v])\<rparr>"

definition Header_Get :: "Request \<Rightarrow> string \<Rightarrow> string" where
  "Header_Get req key =
     (case Header req key of None \<Rightarrow> '''' | Some [] \<Rightarrow> '''' | Some (v # vs) \<Rightarrow> v)"

subsection \<open>Standard base64 and basic authentication\<close>

text \<open>
  \<open>base64.StdEncoding.EncodeToString\<close> (RFC 4648, with padding): three bytes are
  24 bits, written as four characters of the alphabet; a last group of one or two
  bytes is padded with \<open>=\<close>. A string is its list of bytes.
\<close>

definition encodeStd :: string where
  "encodeStd = ''ABCDEFGHIJKLMNOPQRSTUVWXYZabcdefghijklmnopqrstuvwxyz0123456789+/''"

definition sextet :: "nat \<Rightarrow> char" where
  "sextet n = encodeStd ! (n mod 64)"

fun encode :: "nat list \<Rightarrow> string" where
  "encode (a # b # c # src) =
     (let val = a * 65536 + b * 256 + c
      in [sextet (val div 262144), sextet (val div 4096), sextet (val div 64), sextet val])
     @ encode src"
| "encode [a, b] =
     (let val = a * 65536 + b * 256
      in [sextet (val div 262144), sextet (val div 4096), sextet (val div 64), CHR ''=''])"
| "encode [a] =
     (let val = a * 65536
      in [sextet (val div 262144), sextet (val div 4096), CHR ''='', CHR ''=''])"
| "encode [] = []"

definition EncodeToString :: "string \<Rightarrow> string" where
  "EncodeToString src = encode (map of_char src)"

text \<open>
  \<open>Request.SetBasicAuth\<close> of net/http: the Authorization header becomes
  \<open>Basic\<close>, a space, and the base64 of \<open>username:password\<close>.
\<close>

definition SetBasicAuth :: "string \<Rightarrow> string \<Rightarrow> Request \<Rightarrow> Request" where
  "SetBasicAuth username password req =
     Header_Set ''Authorization'' (''Basic '' @ EncodeToString (username @ '':'' @ password)) req"

subsection \<open>Files\<close>

text \<open>
  The file system as \<open>ioutil.ReadFile\<close> sees it: a path has contents, or reading it
  fails (\<open>None\<close>). Paths are the strings the configuration names.
\<close>

type_synonym Files = "string \<rightharpoonup> string"

subsection \<open>addHeaders\<close>

text \<open>Modelled from the spec: the basic-auth half of the authenticator \<open>addHeaders\<close>
  (auth.go, which declares it, is not among the sources; auth\_test.go calls it).
  Section 4.2 of the spec: read the password either directly or from a file path, fail
  with a distinguishable error if the file is unreadable, if the username is empty, or if
  no password source is provided; otherwise set the standard basic-auth encoding. The
  request is returned as the call leaves it. The spec lists the three failures without an
  order; here the username is checked first, then a named password file is read, then
  the literal password is taken.
\<close>

definition addBasicAuth :: "Files \<Rightarrow> StringMap \<Rightarrow> Request \<Rightarrow> error option \<times> Request" where
  "addBasicAuth fs basicAuth req =
     (let username = index basicAuth ''username'';
          passwordFile = index basicAuth ''password_file'';
          password = index basicAuth ''password''
      in if username = '''' then (Some ErrNoBasicAuthUsername, req)
         else if passwordFile \<noteq> '''' then
           (case fs passwordFile of
              None \<Rightarrow> (Some ErrFailedToReadFile, req)
            | Some file \<Rightarrow> (None, SetBasicAuth username file req))
         else if password = '''' then (Some ErrNoBasicAuthPassword, req)
         else (None, SetBasicAuth username password req))"

text \<open>Modelled from the spec: the bearer-token half of \<open>addHeaders\<close> (auth.go is not
  among the sources). Section 4.2: read the token directly or from a file, fail
  similarly on unreadable files; set the \<open>Bearer <token>\<close> header. With no token and
  no token file nothing is configured and the request passes through.
\<close>

definition addBearerTokenAuth :: "Files \<Rightarrow> 'u Config \<Rightarrow> Request \<Rightarrow> error option \<times> Request" where
  "addBearerTokenAuth fs c req =
     (if BearerTokenFile c \<noteq> '''' then
        (case fs (BearerTokenFile c) of
           None \<Rightarrow> (Some ErrFailedToReadFile, req)
         | Some file \<Rightarrow> (None, Header_Set ''Authorization'' (''Bearer '' @ file) req))
      else if BearerToken c \<noteq> '''' then
        (None, Header_Set ''Authorization'' (''Bearer '' @ BearerToken c) req)
      else (None, req))"

text \<open>Modelled from the spec: \<open>addHeaders\<close>, the authenticator (auth.go is not among the
  sources). Section 4.2: given an outgoing request, set at most one Authorization
  header, by basic auth or by bearer token; if neither is configured, no header is
  added. Basic auth is configured when the \<open>BasicAuth\<close> map is not nil; it is listed
  first and is taken first, and the bearer token is used only without it.
\<close>

definition addHeaders :: "Files \<Rightarrow> 'u Config \<Rightarrow> Request \<Rightarrow> error option \<times> Request" where
  "addHeaders fs c req =
     (if BasicAuth c \<noteq> None then addBasicAuth fs (BasicAuth c) req
      else addBearerTokenAuth fs c req)"

subsection \<open>The inputs of TestAuthentication\<close>

text \<open>
  The request of auth\_test.go, line 165: a POST with no header yet. The configurations
  are the rows of the test table (lines 59 to 126).
\<close>

definition newRequest :: Request where
  "newRequest = \<lparr>Method = ''POST'', URL = ''http://127.0.0.1:8080'', Header = Map.empty\<rparr>"

definition cfgPassword :: "string Config" where
  "cfgPassword =
     zeroConfig\<lparr>BasicAuth := Some [''username'' \<mapsto> ''TestUser'', ''password'' \<mapsto> ''TestPassword'']\<rparr>"

definition cfgNoUsername :: "string Config" where
  "cfgNoUsername = zeroConfig\<lparr>BasicAuth := Some [''password'' \<mapsto> ''TestPassword'']\<rparr>"

definition cfgNoPassword :: "string Config" where
  "cfgNoPassword = zeroConfig\<lparr>BasicAuth := Some [''username'' \<mapsto> ''TestUser'']\<rparr>"

definition cfgPasswordFile :: "string Config" where
  "cfgPasswordFile =
     zeroConfig\<lparr>BasicAuth :=
       Some [''username'' \<mapsto> ''TestUser'', ''password_file'' \<mapsto> ''passwordFile'']\<rparr>"

definition cfgBadPasswordFile :: "string Config" where
  "cfgBadPasswordFile =
     zeroConfig\<lparr>BasicAuth :=
       Some [''username'' \<mapsto> ''TestUser'', ''password_file'' \<mapsto> ''missingPasswordFile'']\<rparr>"

definition cfgBearerToken :: "string Config" where
  "cfgBearerToken = zeroConfig\<lparr>BearerToken := ''testToken''\<rparr>"

definition cfgBadBearerTokenFile :: "string Config" where
  "cfgBadBearerTokenFile = zeroConfig\<lparr>BearerTokenFile := ''missingBearerTokenFile''\<rparr>"

definition cfgBearerTokenFile :: "string Config" where
  "cfgBearerTokenFile = zeroConfig\<lparr>BearerTokenFile := ''bearerTokenFile''\<rparr>"

text \<open>The files the test writes before the call (lines 139 to 154).\<close>

definition passwordFiles :: Files where
  "passwordFiles = [''passwordFile'' \<mapsto> ''TestPassword'']"

definition bearerTokenFiles :: Files where
  "bearerTokenFiles = [''bearerTokenFile'' \<mapsto> ''testToken'']"

section \<open>Properties of Validate\<close>

subsection \<open>Auxiliary facts\<close>

lemma Second_times_neq_0: "30 * Second \<noteq> 0" "10 * Second \<noteq> 0"
  by (simp_all add: Second_def)

lemma unat_Seconds:
  "unat (30 * Second) = 30000000000" "unat (10 * Second) = 10000000000"
  by (simp_all add: Second_def)

lemma Validate_twoBearerTokens:
  "twoBearerTokens c \<Longrightarrow> Validate p c = (Some ErrTwoBearerTokens, c)"
  by (simp add: Validate_def)

lemma Validate_twoPasswords:
  "\<not> twoBearerTokens c \<Longrightarrow> twoPasswords c \<Longrightarrow> Validate p c = (Some ErrTwoPasswords, c)"
  by (simp add: Validate_def)

lemma Validate_no_conflict_error:
  assumes "\<not> twoBearerTokens c" and "\<not> twoPasswords c"
  shows "fst (Validate p c) = None \<or> (\<exists>msg. fst (Validate p c) = Some (UrlError msg))"
  using assms by (auto simp: Validate_def Let_def split: sum.splits)

lemma defaults_keep:
  "Client (defaultPushInterval (defaultRemoteTimeout (defaultEndpoint c))) = Client c"
  "ProxyURL (defaultPushInterval (defaultRemoteTimeout (defaultEndpoint c))) = ProxyURL c"
  by (simp_all add: defaultPushInterval_def defaultRemoteTimeout_def defaultEndpoint_def)

lemma defaults_fields:
  "Endpoint (defaultPushInterval (defaultRemoteTimeout (defaultEndpoint c))) =
     (if Endpoint c = '''' then ''/api/prom/push'' else Endpoint c)"
  "RemoteTimeout (defaultPushInterval (defaultRemoteTimeout (defaultEndpoint c))) =
     (if RemoteTimeout c = 0 then 30 * Second else RemoteTimeout c)"
  "PushInterval (defaultPushInterval (defaultRemoteTimeout (defaultEndpoint c))) =
     (if PushInterval c = 0 then 10 * Second else PushInterval c)"
  by (simp_all add: defaultPushInterval_def defaultRemoteTimeout_def defaultEndpoint_def)

lemma defaultClient_set: "defaultClient (d\<lparr>Client := Some x\<rparr>) = d\<lparr>Client := Some x\<rparr>"
  by (simp add: defaultClient_def)

text \<open>Validate on a Config without duplicate credential sources, in one equation.\<close>

lemma Validate_conflict_free:
  assumes "\<not> twoBearerTokens c" and "\<not> twoPasswords c"
  shows "Validate p c =
     (let d = defaultPushInterval (defaultRemoteTimeout (defaultEndpoint c)) in
        if Client c = None \<and> ProxyURL c \<noteq> '''' then
          (case p (ProxyURL c) of
             Inl err \<Rightarrow> (Some (UrlError err), d)
           | Inr u \<Rightarrow> (None, d\<lparr>Client := Some (http_Client (proxyTransport u))\<rparr>))
        else if Client c = None then (None, d\<lparr>Client := Some http_DefaultClient\<rparr>)
        else (None, d))"
proof -
  have "defaultClient d = (if Client d = None then d\<lparr>Client := Some http_DefaultClient\<rparr> else d)"
    for d :: "'a Config"
    by (simp add: defaultClient_def)
  then show ?thesis
    using assms
    by (simp add: Validate_def Let_def defaults_keep defaultClient_set split: sum.splits)
qed

text \<open>
  Validate never touches the credentials, the name, the TLS settings, the proxy URL or
  the static headers, whatever it returns.
\<close>

lemma Validate_frame:
  "Name (snd (Validate p c)) = Name c \<and>
   BasicAuth (snd (Validate p c)) = BasicAuth c \<and>
   BearerToken (snd (Validate p c)) = BearerToken c \<and>
   BearerTokenFile (snd (Validate p c)) = BearerTokenFile c \<and>
   TLSConfig (snd (Validate p c)) = TLSConfig c \<and>
   ProxyURL (snd (Validate p c)) = ProxyURL c \<and>
   Headers (snd (Validate p c)) = Headers c"
  by (simp add: Validate_def Let_def defaultClient_def defaultPushInterval_def
      defaultRemoteTimeout_def defaultEndpoint_def split: sum.splits)

text \<open>
  When \<open>url.Parse\<close> rejects the proxy URL, Validate fails after the defaults have been
  filled in: the Config is not restored.
\<close>

lemma Validate_parse_error_keeps_defaults:
  "Validate parseNone cfgProxy =
     (Some (UrlError ''parse error''),
      cfgProxy\<lparr>Endpoint := ''/api/prom/push'', RemoteTimeout := 30 * Second,
        PushInterval := 10 * Second\<rparr>)"
  by (simp add: Validate_def twoBearerTokens_def twoPasswords_def cfgProxy_def zeroConfig_def
      index_def parseNone_def defaultPushInterval_def defaultRemoteTimeout_def
      defaultEndpoint_def)

subsection \<open>Duplicate credential sources\<close>

text \<open>
  Claim C1, as the code has it. Validate fails with \<open>ErrTwoBearerTokens\<close> whenever
  \<open>BearerToken\<close> and \<open>BearerTokenFile\<close> are both non-empty. It fails with
  \<open>ErrTwoPasswords\<close> when \<open>BasicAuth["password"]\<close> and \<open>BasicAuth["password_file"]\<close>
  are both non-empty and the two bearer-token forms are not both set: the bearer-token
  check comes first. When neither conflict is present, Validate returns neither of the
  two errors.
\<close>

theorem Validate_duplicate_sources:
  "(BearerToken c \<noteq> '''' \<and> BearerTokenFile c \<noteq> ''''
      \<longrightarrow> fst (Validate p c) = Some ErrTwoBearerTokens) \<and>
   (index (BasicAuth c) ''password'' \<noteq> '''' \<and> index (BasicAuth c) ''password_file'' \<noteq> '''' \<and>
    \<not> (BearerToken c \<noteq> '''' \<and> BearerTokenFile c \<noteq> '''')
      \<longrightarrow> fst (Validate p c) = Some ErrTwoPasswords) \<and>
   (\<not> (index (BasicAuth c) ''password'' \<noteq> '''' \<and> index (BasicAuth c) ''password_file'' \<noteq> '''') \<and>
    \<not> (BearerToken c \<noteq> '''' \<and> BearerTokenFile c \<noteq> '''')
      \<longrightarrow> fst (Validate p c) \<noteq> Some ErrTwoPasswords \<and>
          fst (Validate p c) \<noteq> Some ErrTwoBearerTokens)"
proof (intro conjI impI)
  assume "BearerToken c \<noteq> '''' \<and> BearerTokenFile c \<noteq> ''''"
  then have "twoBearerTokens c"
    by (simp add: twoBearerTokens_def)
  then show "fst (Validate p c) = Some ErrTwoBearerTokens"
    by (simp add: Validate_twoBearerTokens)
next
  assume "index (BasicAuth c) ''password'' \<noteq> '''' \<and> index (BasicAuth c) ''password_file'' \<noteq> '''' \<and>
    \<not> (BearerToken c \<noteq> '''' \<and> BearerTokenFile c \<noteq> '''')"
  then have "\<not> twoBearerTokens c" and "twoPasswords c"
    by (simp_all add: twoBearerTokens_def twoPasswords_def)
  then show "fst (Validate p c) = Some ErrTwoPasswords"
    by (simp add: Validate_twoPasswords)
next
  assume "\<not> (index (BasicAuth c) ''password'' \<noteq> '''' \<and> index (BasicAuth c) ''password_file'' \<noteq> '''') \<and>
    \<not> (BearerToken c \<noteq> '''' \<and> BearerTokenFile c \<noteq> '''')"
  then have n: "\<not> twoBearerTokens c" "\<not> twoPasswords c"
    by (simp_all add: twoBearerTokens_def twoPasswords_def)
  from Validate_no_conflict_error [OF n, of p]
  show "fst (Validate p c) \<noteq> Some ErrTwoPasswords"
    by auto
  from Validate_no_conflict_error [OF n, of p]
  show "fst (Validate p c) \<noteq> Some ErrTwoBearerTokens"
    by auto
qed

text \<open>
  The three cases at concrete Configs: two bearer tokens, two passwords (and one bearer
  token at most), and the zero Config.
\<close>

theorem Validate_duplicate_sources_witness:
  "BearerToken cfgTwoTokens \<noteq> '''' \<and> BearerTokenFile cfgTwoTokens \<noteq> '''' \<and>
   fst (Validate parseAll cfgTwoTokens) = Some ErrTwoBearerTokens \<and>
   index (BasicAuth cfgTwoPasswords) ''password'' \<noteq> '''' \<and>
   index (BasicAuth cfgTwoPasswords) ''password_file'' \<noteq> '''' \<and>
   \<not> (BearerToken cfgTwoPasswords \<noteq> '''' \<and> BearerTokenFile cfgTwoPasswords \<noteq> '''') \<and>
   fst (Validate parseAll cfgTwoPasswords) = Some ErrTwoPasswords \<and>
   \<not> (index (BasicAuth (zeroConfig :: string Config)) ''password'' \<noteq> '''' \<and>
      index (BasicAuth (zeroConfig :: string Config)) ''password_file'' \<noteq> '''') \<and>
   \<not> (BearerToken (zeroConfig :: string Config) \<noteq> '''' \<and>
      BearerTokenFile (zeroConfig :: string Config) \<noteq> '''') \<and>
   fst (Validate parseAll (zeroConfig :: string Config)) \<noteq> Some ErrTwoPasswords \<and>
   fst (Validate parseAll (zeroConfig :: string Config)) \<noteq> Some ErrTwoBearerTokens"
proof -
  have a: "BearerToken cfgTwoTokens \<noteq> '''' \<and> BearerTokenFile cfgTwoTokens \<noteq> ''''"
    by (simp add: cfgTwoTokens_def zeroConfig_def)
  have b: "index (BasicAuth cfgTwoPasswords) ''password'' \<noteq> '''' \<and>
      index (BasicAuth cfgTwoPasswords) ''password_file'' \<noteq> '''' \<and>
      \<not> (BearerToken cfgTwoPasswords \<noteq> '''' \<and> BearerTokenFile cfgTwoPasswords \<noteq> '''')"
    by (simp add: cfgTwoPasswords_def zeroConfig_def index_def)
  have c: "\<not> (index (BasicAuth (zeroConfig :: string Config)) ''password'' \<noteq> '''' \<and>
        index (BasicAuth (zeroConfig :: string Config)) ''password_file'' \<noteq> '''') \<and>
      \<not> (BearerToken (zeroConfig :: string Config) \<noteq> '''' \<and>
        BearerTokenFile (zeroConfig :: string Config) \<noteq> '''')"
    by (simp add: zeroConfig_def index_def)
  from a b c
    Validate_duplicate_sources [of cfgTwoTokens parseAll]
    Validate_duplicate_sources [of cfgTwoPasswords parseAll]
    Validate_duplicate_sources [of "zeroConfig :: string Config" parseAll]
  show ?thesis
    by blast
qed

text \<open>
  Claim C1 as it is written fails where both conflicts are present: the two password
  forms are set, and Validate returns \<open>ErrTwoBearerTokens\<close>, not \<open>ErrTwoPasswords\<close>.
\<close>

theorem Validate_two_passwords_counterexample:
  "index (BasicAuth cfgTwoOfEach) ''password'' \<noteq> '''' \<and>
   index (BasicAuth cfgTwoOfEach) ''password_file'' \<noteq> '''' \<and>
   fst (Validate parseAll cfgTwoOfEach) = Some ErrTwoBearerTokens \<and>
   fst (Validate parseAll cfgTwoOfEach) \<noteq> Some ErrTwoPasswords"
  by (simp add: Validate_def twoBearerTokens_def cfgTwoOfEach_def cfgTwoPasswords_def
      zeroConfig_def index_def)

subsection \<open>Defaults\<close>

text \<open>
  Claim C3. On every Config on which Validate succeeds, each default applies exactly when
  its field was unset: \<open>Endpoint\<close> is \<open>/api/prom/push\<close> if it was empty,
  \<open>RemoteTimeout\<close> is 30 seconds if it was zero, \<open>PushInterval\<close> is 10 seconds if it
  was zero, and a field that was set keeps its value; so a field is changed if and only
  if it was unset.
\<close>

theorem Validate_defaults:
  assumes ok: "Validate p c = (None, c')"
  shows "Endpoint c' = (if Endpoint c = '''' then ''/api/prom/push'' else Endpoint c) \<and>
         RemoteTimeout c' = (if RemoteTimeout c = 0 then 30 * Second else RemoteTimeout c) \<and>
         PushInterval c' = (if PushInterval c = 0 then 10 * Second else PushInterval c) \<and>
         (Endpoint c' \<noteq> Endpoint c) = (Endpoint c = '''') \<and>
         (RemoteTimeout c' \<noteq> RemoteTimeout c) = (RemoteTimeout c = 0) \<and>
         (PushInterval c' \<noteq> PushInterval c) = (PushInterval c = 0)"
proof -
  from ok have n: "\<not> twoBearerTokens c" "\<not> twoPasswords c"
    by (auto simp: Validate_def split: if_splits)
  let ?d = "defaultPushInterval (defaultRemoteTimeout (defaultEndpoint c))"
  from ok Validate_conflict_free [OF n, of p]
  have "c' = ?d \<or> (\<exists>cl. c' = ?d\<lparr>Client := cl\<rparr>)"
    by (auto simp: Let_def split: if_splits sum.splits)
  then have e: "Endpoint c' = Endpoint ?d" "RemoteTimeout c' = RemoteTimeout ?d"
    "PushInterval c' = PushInterval ?d"
    by auto
  show ?thesis
    unfolding e defaults_fields using Second_times_neq_0 by auto
qed

text \<open>
  A Config whose push interval is set to 7 seconds and whose endpoint and remote
  timeout are unset.
\<close>

theorem Validate_defaults_witness:
  "Validate parseAll cfgPushInterval = (None, snd (Validate parseAll cfgPushInterval)) \<and>
   Endpoint (snd (Validate parseAll cfgPushInterval)) = ''/api/prom/push'' \<and>
   RemoteTimeout (snd (Validate parseAll cfgPushInterval)) = 30000000000 \<and>
   PushInterval (snd (Validate parseAll cfgPushInterval)) = 7000000000"
proof -
  have ok: "Validate parseAll cfgPushInterval = (None, snd (Validate parseAll cfgPushInterval))"
    by (simp add: Validate_def twoBearerTokens_def twoPasswords_def cfgPushInterval_def
        zeroConfig_def index_def Let_def defaultPushInterval_def defaultRemoteTimeout_def
        defaultEndpoint_def)
  have unset: "Endpoint cfgPushInterval = ''''" "RemoteTimeout cfgPushInterval = 0"
    "PushInterval cfgPushInterval = 7000000000"
    by (simp_all add: cfgPushInterval_def zeroConfig_def Second_def)
  from Validate_defaults [OF ok] ok unset show ?thesis
    by (simp add: Second_def)
qed

subsection \<open>No change on a duplicate-source error\<close>

text \<open>
  Claim C10. Whenever Validate returns \<open>ErrTwoPasswords\<close> or \<open>ErrTwoBearerTokens\<close>,
  the Config is as it was: no default has been filled in and \<open>Client\<close> has not been
  set.
\<close>

theorem Validate_duplicate_error_unchanged:
  assumes "fst (Validate p c) = Some ErrTwoPasswords \<or>
           fst (Validate p c) = Some ErrTwoBearerTokens"
  shows "snd (Validate p c) = c"
proof (cases "twoBearerTokens c \<or> twoPasswords c")
  case True
  then show ?thesis
    by (auto simp: Validate_def)
next
  case False
  then have n: "\<not> twoBearerTokens c" "\<not> twoPasswords c"
    by simp_all
  from Validate_no_conflict_error [OF n, of p] assms show ?thesis
    by auto
qed

theorem Validate_duplicate_error_unchanged_witness:
  "(fst (Validate parseAll cfgTwoPasswords) = Some ErrTwoPasswords \<or>
    fst (Validate parseAll cfgTwoPasswords) = Some ErrTwoBearerTokens) \<and>
   snd (Validate parseAll cfgTwoPasswords) = cfgTwoPasswords \<and>
   Endpoint (snd (Validate parseAll cfgTwoPasswords)) = '''' \<and>
   Client (snd (Validate parseAll cfgTwoPasswords)) = None"
proof -
  have h: "fst (Validate parseAll cfgTwoPasswords) = Some ErrTwoPasswords \<or>
      fst (Validate parseAll cfgTwoPasswords) = Some ErrTwoBearerTokens"
    by (simp add: Validate_def twoBearerTokens_def twoPasswords_def cfgTwoPasswords_def
        zeroConfig_def index_def)
  have z: "Endpoint cfgTwoPasswords = ''''" "Client cfgTwoPasswords = None"
    by (simp_all add: cfgTwoPasswords_def zeroConfig_def)
  from h Validate_duplicate_error_unchanged [OF h] z show ?thesis
    by simp
qed

subsection \<open>The client\<close>

text \<open>
  Claim C7, as the code has it. For every Config without duplicate credential sources
  (not both bearer-token forms, not both password forms) and with no preset Client: when
  \<open>ProxyURL\<close> is non-empty and parses, Validate succeeds and sets \<open>Client\<close> to a new
  client whose transport sends every request through the parsed proxy URL, with a dial
  timeout and keep-alive of 30 seconds, at most 100 idle connections, an idle timeout of
  90 seconds and a TLS handshake timeout of 10 seconds; when \<open>ProxyURL\<close> is empty,
  Validate succeeds and sets \<open>Client\<close> to the default HTTP client.
\<close>

theorem Validate_client:
  assumes "\<not> (BearerToken c \<noteq> '''' \<and> BearerTokenFile c \<noteq> '''')"
    and "\<not> (index (BasicAuth c) ''password'' \<noteq> '''' \<and> index (BasicAuth c) ''password_file'' \<noteq> '''')"
    and "Client c = None"
  shows "(ProxyURL c \<noteq> '''' \<and> p (ProxyURL c) = Inr u \<longrightarrow>
            fst (Validate p c) = None \<and>
            Client (snd (Validate p c)) = Some (http_Client
              \<lparr>Proxy = http_ProxyURL u,
               DialContext = \<lparr>Timeout = 30 * Second, KeepAlive = 30 * Second, DualStack = True\<rparr>,
               ForceAttemptHTTP2 = True,
               MaxIdleConns = 100,
               IdleConnTimeout = 90 * Second,
               TLSHandshakeTimeout = 10 * Second,
               ExpectContinueTimeout = 1 * Second\<rparr>)) \<and>
         (ProxyURL c = '''' \<longrightarrow>
            fst (Validate p c) = None \<and> Client (snd (Validate p c)) = Some http_DefaultClient)"
proof -
  from assms(1,2) have n: "\<not> twoBearerTokens c" "\<not> twoPasswords c"
    by (simp_all add: twoBearerTokens_def twoPasswords_def)
  show ?thesis
    using assms(3) by (simp add: Validate_conflict_free [OF n] Let_def proxyTransport_def)
qed

text \<open>A Config with a proxy URL and nothing else, and the zero Config.\<close>

theorem Validate_client_witness:
  "\<not> (BearerToken cfgProxy \<noteq> '''' \<and> BearerTokenFile cfgProxy \<noteq> '''') \<and>
   \<not> (index (BasicAuth cfgProxy) ''password'' \<noteq> '''' \<and>
      index (BasicAuth cfgProxy) ''password_file'' \<noteq> '''') \<and>
   Client cfgProxy = None \<and>
   ProxyURL cfgProxy \<noteq> '''' \<and>
   parseAll (ProxyURL cfgProxy) = Inr ''http://proxy.example:3128'' \<and>
   fst (Validate parseAll cfgProxy) = None \<and>
   Client (snd (Validate parseAll cfgProxy)) = Some (http_Client
     \<lparr>Proxy = http_ProxyURL ''http://proxy.example:3128'',
      DialContext = \<lparr>Timeout = 30000000000, KeepAlive = 30000000000, DualStack = True\<rparr>,
      ForceAttemptHTTP2 = True,
      MaxIdleConns = 100,
      IdleConnTimeout = 90000000000,
      TLSHandshakeTimeout = 10000000000,
      ExpectContinueTimeout = 1000000000\<rparr>) \<and>
   Client (zeroConfig :: string Config) = None \<and>
   ProxyURL (zeroConfig :: string Config) = '''' \<and>
   fst (Validate parseAll (zeroConfig :: string Config)) = None \<and>
   Client (snd (Validate parseAll (zeroConfig :: string Config))) = Some http_DefaultClient"
proof -
  have a: "\<not> (BearerToken cfgProxy \<noteq> '''' \<and> BearerTokenFile cfgProxy \<noteq> '''')"
    "\<not> (index (BasicAuth cfgProxy) ''password'' \<noteq> '''' \<and>
        index (BasicAuth cfgProxy) ''password_file'' \<noteq> '''')"
    "Client cfgProxy = None"
    by (simp_all add: cfgProxy_def zeroConfig_def index_def)
  have b: "ProxyURL cfgProxy \<noteq> '''' \<and>
      parseAll (ProxyURL cfgProxy) = Inr ''http://proxy.example:3128''"
    by (simp add: cfgProxy_def zeroConfig_def parseAll_def)
  have z: "\<not> (BearerToken (zeroConfig :: string Config) \<noteq> '''' \<and>
        BearerTokenFile (zeroConfig :: string Config) \<noteq> '''')"
    "\<not> (index (BasicAuth (zeroConfig :: string Config)) ''password'' \<noteq> '''' \<and>
        index (BasicAuth (zeroConfig :: string Config)) ''password_file'' \<noteq> '''')"
    "Client (zeroConfig :: string Config) = None"
    "ProxyURL (zeroConfig :: string Config) = ''''"
    by (simp_all add: zeroConfig_def index_def)
  from a b z(3,4)
    Validate_client [OF a, of parseAll "''http://proxy.example:3128''"]
    Validate_client [OF z(1,2,3), of parseAll "''''"]
  show ?thesis
    by (simp add: Second_def)
qed

text \<open>
  Claim C7 as it is written fails on a Config with duplicate credential sources: with
  no preset Client and a proxy URL that parses, Validate returns \<open>ErrTwoBearerTokens\<close>
  and builds no client.
\<close>

theorem Validate_client_counterexample:
  "Client cfgTwoTokensProxy = None \<and>
   ProxyURL cfgTwoTokensProxy \<noteq> '''' \<and>
   parseAll (ProxyURL cfgTwoTokensProxy) = Inr ''http://proxy.example:3128'' \<and>
   fst (Validate parseAll cfgTwoTokensProxy) = Some ErrTwoBearerTokens \<and>
   Client (snd (Validate parseAll cfgTwoTokensProxy)) = None"
  by (simp add: Validate_def twoBearerTokens_def cfgTwoTokensProxy_def cfgTwoTokens_def
      zeroConfig_def parseAll_def)

section \<open>Properties of the authenticator\<close>

subsection \<open>Base64 on known values\<close>

lemma EncodeToString_examples:
  "EncodeToString '''' = ''''"
  "EncodeToString ''f'' = ''Zg==''"
  "EncodeToString ''fo'' = ''Zm8=''"
  "EncodeToString ''foo'' = ''Zm9v''"
  "EncodeToString ''foobar'' = ''Zm9vYmFy''"
  by (simp_all add: EncodeToString_def sextet_def encodeStd_def)

lemma EncodeToString_TestUser:
  "EncodeToString ''TestUser:TestPassword'' = ''VGVzdFVzZXI6VGVzdFBhc3N3b3Jk''"
  by (simp add: EncodeToString_def sextet_def encodeStd_def)

text \<open>Four characters for every three bytes or part of them.\<close>

lemma length_encode: "length (encode src) = 4 * ((length src + 2) div 3)"
proof (induction src rule: encode.induct)
  case (1 a b c src)
  have "(length src + 5) div 3 = Suc ((length src + 2) div 3)"
    by arith
  with 1 show ?case
    by (simp add: Let_def add.commute)
qed (simp_all add: Let_def)

lemma length_EncodeToString: "length (EncodeToString s) = 4 * ((length s + 2) div 3)"
  by (simp add: EncodeToString_def length_encode)

subsection \<open>The model on the rows of TestAuthentication\<close>

text \<open>
  The eight rows of the test table (auth\_test.go, lines 59 to 126), each with the
  error and the Authorization header the test expects.
\<close>

lemma test_Basic_Auth_with_password:
  "fst (addHeaders Map.empty cfgPassword newRequest) = None \<and>
   Header_Get (snd (addHeaders Map.empty cfgPassword newRequest)) ''Authorization'' =
     ''Basic VGVzdFVzZXI6VGVzdFBhc3N3b3Jk''"
  by (simp add: addHeaders_def addBasicAuth_def cfgPassword_def zeroConfig_def index_def
      SetBasicAuth_def Header_Set_def Header_Get_def EncodeToString_TestUser)

lemma test_Basic_Auth_with_no_username:
  "fst (addHeaders Map.empty cfgNoUsername newRequest) = Some ErrNoBasicAuthUsername"
  by (simp add: addHeaders_def addBasicAuth_def cfgNoUsername_def zeroConfig_def index_def)

lemma test_Basic_Auth_with_no_password:
  "fst (addHeaders Map.empty cfgNoPassword newRequest) = Some ErrNoBasicAuthPassword"
  by (simp add: addHeaders_def addBasicAuth_def cfgNoPassword_def zeroConfig_def index_def)

lemma test_Basic_Auth_with_password_file:
  "fst (addHeaders passwordFiles cfgPasswordFile newRequest) = None \<and>
   Header_Get (snd (addHeaders passwordFiles cfgPasswordFile newRequest)) ''Authorization'' =
     ''Basic VGVzdFVzZXI6VGVzdFBhc3N3b3Jk''"
  by (simp add: addHeaders_def addBasicAuth_def cfgPasswordFile_def zeroConfig_def index_def
      passwordFiles_def SetBasicAuth_def Header_Set_def Header_Get_def EncodeToString_TestUser)

lemma test_Basic_Auth_with_bad_password_file:
  "fst (addHeaders Map.empty cfgBadPasswordFile newRequest) = Some ErrFailedToReadFile"
  by (simp add: addHeaders_def addBasicAuth_def cfgBadPasswordFile_def zeroConfig_def
      index_def)

lemma test_Bearer_Token:
  "fst (addHeaders Map.empty cfgBearerToken newRequest) = None \<and>
   Header_Get (snd (addHeaders Map.empty cfgBearerToken newRequest)) ''Authorization'' =
     ''Bearer testToken''"
  by (simp add: addHeaders_def addBearerTokenAuth_def cfgBearerToken_def zeroConfig_def
      Header_Set_def Header_Get_def)

lemma test_Bearer_Token_with_bad_bearer_token_file:
  "fst (addHeaders Map.empty cfgBadBearerTokenFile newRequest) = Some ErrFailedToReadFile"
  by (simp add: addHeaders_def addBearerTokenAuth_def cfgBadBearerTokenFile_def
      zeroConfig_def)

lemma test_Bearer_Token_with_bearer_token_file:
  "fst (addHeaders bearerTokenFiles cfgBearerTokenFile newRequest) = None \<and>
   Header_Get (snd (addHeaders bearerTokenFiles cfgBearerTokenFile newRequest))
     ''Authorization'' = ''Bearer testToken''"
  by (simp add: addHeaders_def addBearerTokenAuth_def cfgBearerTokenFile_def zeroConfig_def
      bearerTokenFiles_def Header_Set_def Header_Get_def)

subsection \<open>Auxiliary facts\<close>

lemma addBasicAuth_cases:
  "addBasicAuth fs b req = (e, req') \<Longrightarrow>
     req' = req \<or> (\<exists>v. req' = req\<lparr>Header := (Header req)(''Authorization'' \<mapsto> [v])\<rparr>)"
  by (auto simp: addBasicAuth_def Let_def SetBasicAuth_def Header_Set_def
      split: if_splits option.splits)

lemma addBearerTokenAuth_cases:
  "addBearerTokenAuth fs c req = (e, req') \<Longrightarrow>
     req' = req \<or> (\<exists>v. req' = req\<lparr>Header := (Header req)(''Authorization'' \<mapsto> [v])\<rparr>)"
  by (auto simp: addBearerTokenAuth_def Header_Set_def split: if_splits option.splits)

text \<open>A call that fails leaves the request as it was.\<close>

lemma addHeaders_error_unchanged:
  "fst (addHeaders fs c req) \<noteq> None \<Longrightarrow> snd (addHeaders fs c req) = req"
  by (auto simp: addHeaders_def addBasicAuth_def addBearerTokenAuth_def Let_def
      split: if_splits option.splits)

subsection \<open>Basic authentication\<close>



subsection \<open>At most one Authorization header\<close>

text \<open>
  Claim C6. For every request, \<open>addHeaders\<close> sets at most one Authorization header:
  the request comes back unchanged, or with its Authorization header set to a single
  value and nothing else changed. When neither basic auth nor a bearer token is
  configured, the call succeeds and the request comes back unchanged, so a request
  without an Authorization entry is left without one.
\<close>

theorem addHeaders_at_most_one_header:
  "(snd (addHeaders fs c req) = req \<or>
    (\<exists>v. snd (addHeaders fs c req) = req\<lparr>Header := (Header req)(''Authorization'' \<mapsto> [v])\<rparr>)) \<and>
   (BasicAuth c = None \<and> BearerToken c = '''' \<and> BearerTokenFile c = '''' \<longrightarrow>
      addHeaders fs c req = (None, req)) \<and>
   (BasicAuth c = None \<and> BearerToken c = '''' \<and> BearerTokenFile c = '''' \<and>
    Header req ''Authorization'' = None \<longrightarrow>
      Header (snd (addHeaders fs c req)) ''Authorization'' = None)"
proof (intro conjI impI)
  show "snd (addHeaders fs c req) = req \<or>
    (\<exists>v. snd (addHeaders fs c req) = req\<lparr>Header := (Header req)(''Authorization'' \<mapsto> [v])\<rparr>)"
  proof (cases "BasicAuth c = None")
    case True
    then have "addHeaders fs c req = addBearerTokenAuth fs c req"
      by (simp add: addHeaders_def)
    with addBearerTokenAuth_cases [of fs c req "fst (addBearerTokenAuth fs c req)"
        "snd (addBearerTokenAuth fs c req)"]
    show ?thesis
      by simp
  next
    case False
    then have "addHeaders fs c req = addBasicAuth fs (BasicAuth c) req"
      by (simp add: addHeaders_def)
    with addBasicAuth_cases [of fs "BasicAuth c" req "fst (addBasicAuth fs (BasicAuth c) req)"
        "snd (addBasicAuth fs (BasicAuth c) req)"]
    show ?thesis
      by simp
  qed
next
  assume "BasicAuth c = None \<and> BearerToken c = '''' \<and> BearerTokenFile c = ''''"
  then show "addHeaders fs c req = (None, req)"
    by (simp add: addHeaders_def addBearerTokenAuth_def)
next
  assume "BasicAuth c = None \<and> BearerToken c = '''' \<and> BearerTokenFile c = '''' \<and>
    Header req ''Authorization'' = None"
  then show "Header (snd (addHeaders fs c req)) ''Authorization'' = None"
    by (simp add: addHeaders_def addBearerTokenAuth_def)
qed

text \<open>The zero Config and the fresh request of the test.\<close>

theorem addHeaders_at_most_one_header_witness:
  "BasicAuth (zeroConfig :: string Config) = None \<and>
   BearerToken (zeroConfig :: string Config) = '''' \<and>
   BearerTokenFile (zeroConfig :: string Config) = '''' \<and>
   Header newRequest ''Authorization'' = None \<and>
   addHeaders passwordFiles (zeroConfig :: string Config) newRequest = (None, newRequest) \<and>
   Header (snd (addHeaders passwordFiles (zeroConfig :: string Config) newRequest))
     ''Authorization'' = None"
proof -
  have a: "BasicAuth (zeroConfig :: string Config) = None \<and>
      BearerToken (zeroConfig :: string Config) = '''' \<and>
      BearerTokenFile (zeroConfig :: string Config) = '''' \<and>
      Header newRequest ''Authorization'' = None"
    by (simp add: zeroConfig_def newRequest_def)
  from a addHeaders_at_most_one_header [of passwordFiles "zeroConfig :: string Config" newRequest]
  show ?thesis
    by blast
qed

end
